theory Spec2Isabelle
  imports Complex_Main
begin

section \<open>JavaScript numbers and results\<close>

text \<open>
  A JavaScript number is modelled as a real (a finite double, without rounding) or one of
  the three non-finite values. The operations below follow IEEE-754 as JavaScript exposes
  it, except that rounding, overflow and the sign of zero are not represented: a division
  of a nonzero finite number by zero yields the infinity of the sign of the dividend.
\<close>

datatype jsnum = Num real | PosInf | NegInf | NaN


fun js_div :: "jsnum \<Rightarrow> jsnum \<Rightarrow> jsnum" where
  "js_div (Num a) (Num b) =
     (if b \<noteq> 0 then Num (a / b)
      else if a = 0 then NaN
      else if 0 < a then PosInf else NegInf)"
| "js_div (Num a) PosInf = Num 0"
| "js_div (Num a) NegInf = Num 0"
| "js_div PosInf (Num b) = (if 0 \<le> b then PosInf else NegInf)"
| "js_div NegInf (Num b) = (if 0 \<le> b then NegInf else PosInf)"
| "js_div PosInf PosInf = NaN"
| "js_div PosInf NegInf = NaN"
| "js_div NegInf PosInf = NaN"
| "js_div NegInf NegInf = NaN"
| "js_div NaN b = NaN"
| "js_div a NaN = NaN"

fun js_add :: "jsnum \<Rightarrow> jsnum \<Rightarrow> jsnum" where
  "js_add (Num a) (Num b) = Num (a + b)"
| "js_add (Num a) PosInf = PosInf"
| "js_add (Num a) NegInf = NegInf"
| "js_add PosInf (Num b) = PosInf"
| "js_add NegInf (Num b) = NegInf"
| "js_add PosInf PosInf = PosInf"
| "js_add NegInf NegInf = NegInf"
| "js_add PosInf NegInf = NaN"
| "js_add NegInf PosInf = NaN"
| "js_add NaN b = NaN"
| "js_add a NaN = NaN"

fun js_mul :: "jsnum \<Rightarrow> jsnum \<Rightarrow> jsnum" where
  "js_mul (Num a) (Num b) = Num (a * b)"
| "js_mul (Num a) PosInf = (if a = 0 then NaN else if 0 < a then PosInf else NegInf)"
| "js_mul (Num a) NegInf = (if a = 0 then NaN else if 0 < a then NegInf else PosInf)"
| "js_mul PosInf (Num b) = (if b = 0 then NaN else if 0 < b then PosInf else NegInf)"
| "js_mul NegInf (Num b) = (if b = 0 then NaN else if 0 < b then NegInf else PosInf)"
| "js_mul PosInf PosInf = PosInf"
| "js_mul NegInf NegInf = PosInf"
| "js_mul PosInf NegInf = NegInf"
| "js_mul NegInf PosInf = NegInf"
| "js_mul NaN b = NaN"
| "js_mul a NaN = NaN"

text \<open>The comparisons \<open>a < b\<close> and \<open>a > b\<close>: false whenever an operand is NaN.\<close>

fun js_lt :: "jsnum \<Rightarrow> jsnum \<Rightarrow> bool" where
  "js_lt (Num a) (Num b) = (a < b)"
| "js_lt (Num a) PosInf = True"
| "js_lt NegInf (Num b) = True"
| "js_lt NegInf PosInf = True"
| "js_lt a b = False"

definition js_gt :: "jsnum \<Rightarrow> jsnum \<Rightarrow> bool" where
  "js_gt a b = js_lt b a"

text \<open>\<open>Math.max(a, b)\<close> and \<open>Math.min(a, b)\<close>: NaN when an operand is NaN.\<close>

fun js_max :: "jsnum \<Rightarrow> jsnum \<Rightarrow> jsnum" where
  "js_max NaN b = NaN"
| "js_max a NaN = NaN"
| "js_max a b = (if js_lt a b then b else a)"

fun js_min :: "jsnum \<Rightarrow> jsnum \<Rightarrow> jsnum" where
  "js_min NaN b = NaN"
| "js_min a NaN = NaN"
| "js_min a b = (if js_lt b a then b else a)"

text \<open>
  \<open>Math.max(...xs)\<close> and \<open>Math.min(...xs)\<close>: the spread call folds over the arguments
  from \<open>-Infinity\<close> (respectively \<open>+Infinity\<close>), which is the result for no argument.
\<close>

definition Math_max :: "jsnum list \<Rightarrow> jsnum" where
  "Math_max xs = foldl js_max NegInf xs"

definition Math_min :: "jsnum list \<Rightarrow> jsnum" where
  "Math_min xs = foldl js_min PosInf xs"

fun Math_log10 :: "jsnum \<Rightarrow> jsnum" where
  "Math_log10 (Num a) =
     (if 0 < a then Num (log 10 a) else if a = 0 then NegInf else NaN)"
| "Math_log10 PosInf = PosInf"
| "Math_log10 NegInf = NaN"
| "Math_log10 NaN = NaN"

text \<open>
  A call returns a value, throws, or does not come back. \<open>Array.prototype.reduce\<close>
  without an initial value throws a TypeError on an empty array.
\<close>

datatype error = TypeError | IndexOutOfRange

datatype 'a outcome = Returns 'a | Throws error | Diverges

fun reduce :: "('a \<Rightarrow> 'a \<Rightarrow> 'a) \<Rightarrow> 'a list \<Rightarrow> 'a outcome" where
  "reduce f [] = Throws TypeError"
| "reduce f (x # xs) = Returns (foldl f x xs)"

definition slice :: "'a list \<Rightarrow> nat \<Rightarrow> nat \<Rightarrow> 'a list" where
  "slice xs i j = take (j - i) (drop i xs)"

section \<open>AcousticAnalyzer: feature extraction (AcousticSimulatorPage.jsx)\<close>

text \<open>
  The analyzer's only state is \<open>sampleRate\<close>, passed here as the first argument.
  Samples of the clip are finite numbers.
\<close>

definition frameSizeOf :: "real \<Rightarrow> nat" where
  "frameSizeOf sampleRate = nat \<lfloor>sampleRate * 0.025\<rfloor>"

definition hopSizeOf :: "real \<Rightarrow> nat" where
  "hopSizeOf sampleRate = nat \<lfloor>sampleRate * 0.010\<rfloor>"

text \<open>
  The frame loop \<open>for (i = 0; i < length - frameSize; i += hopSize)\<close>, shared by the
  energy, voicing, pitch and zero-crossing analyses: the list of frame starts. With a zero
  hop the index never advances, so an entered loop does not end.
\<close>

function frameStarts :: "nat \<Rightarrow> nat \<Rightarrow> nat \<Rightarrow> nat \<Rightarrow> nat list outcome" where
  "frameStarts len frameSize hopSize i =
     (if i + frameSize < len then
        (if hopSize = 0 then Diverges
         else (case frameStarts len frameSize hopSize (i + hopSize) of
                 Returns starts \<Rightarrow> Returns (i # starts)
               | Throws e \<Rightarrow> Throws e
               | Diverges \<Rightarrow> Diverges))
      else Returns [])"
  by pat_completeness auto
termination
  by (relation "measure (\<lambda>(len, frameSize, hopSize, i). len - (i + frameSize))") auto

declare frameStarts.simps [simp del]

subsection \<open>Energy\<close>

record energy_features =
  energy_values :: "jsnum list"
  energy_mean :: jsnum
  energy_max :: jsnum
  energy_min :: jsnum
  energy_dB :: jsnum

definition frameEnergy :: "real list \<Rightarrow> nat \<Rightarrow> nat \<Rightarrow> jsnum" where
  "frameEnergy audioData frameSize i =
     js_div (Num (\<Sum>s\<leftarrow>slice audioData i (i + frameSize). s * s)) (Num (real frameSize))"

definition analyzeEnergy :: "real \<Rightarrow> real list \<Rightarrow> energy_features outcome" where
  "analyzeEnergy sampleRate audioData =
     (let frameSize = frameSizeOf sampleRate; hopSize = hopSizeOf sampleRate in
      case frameStarts (length audioData) frameSize hopSize 0 of
        Diverges \<Rightarrow> Diverges
      | Throws e \<Rightarrow> Throws e
      | Returns starts \<Rightarrow>
          (let energy = map (frameEnergy audioData frameSize) starts;
               maxEnergy = Math_max energy;
               normalizedEnergy = map (\<lambda>e. js_div e maxEnergy) energy in
           case reduce js_add normalizedEnergy of
             Diverges \<Rightarrow> Diverges
           | Throws e \<Rightarrow> Throws e
           | Returns acc \<Rightarrow>
               Returns \<lparr>energy_values = normalizedEnergy,
                        energy_mean = js_div acc (Num (real (length normalizedEnergy))),
                        energy_max = Math_max normalizedEnergy,
                        energy_min = Math_min normalizedEnergy,
                        energy_dB = js_mul (Num 20)
                          (Math_log10 (js_add (Math_max normalizedEnergy) (Num (1 / 10 ^ 10))))\<rparr>))"

subsection \<open>Voicing\<close>

definition calculateZeroCrossingRate :: "real list \<Rightarrow> jsnum" where
  "calculateZeroCrossingRate frame =
     js_div
       (Num (real (length (filter
          (\<lambda>i. (0 \<le> frame ! i \<and> frame ! (i - 1) < 0) \<or> (frame ! i < 0 \<and> 0 \<le> frame ! (i - 1)))
          [1..<length frame]))))
       (Num (real (length frame)))"

text \<open>
  \<open>calculateAutocorrelation(frame, lag)\<close>: the loop runs over \<open>i < frame.length - lag\<close>,
  so every read is inside the frame; the denominator is at least \<open>1e-10\<close>.
\<close>

definition calculateAutocorrelation :: "real list \<Rightarrow> nat \<Rightarrow> real" where
  "calculateAutocorrelation frame lag =
     (let idx = [0..<length frame - lag];
          numerator = (\<Sum>i\<leftarrow>idx. frame ! i * frame ! (i + lag));
          denominator = (\<Sum>i\<leftarrow>idx. frame ! i * frame ! i + frame ! (i + lag) * frame ! (i + lag))
      in \<bar>numerator\<bar> / (denominator + 1 / 10 ^ 10))"

definition isFrameVoiced :: "real list \<Rightarrow> bool" where
  "isFrameVoiced frame =
     (let energy = js_div (Num (foldl (\<lambda>sum s. sum + s * s) 0 frame)) (Num (real (length frame))) in
      if js_lt energy (Num 0.001) then False
      else let zcr = calculateZeroCrossingRate frame in
        if js_gt zcr (Num 0.2) then False
        else let autocorr = calculateAutocorrelation frame 80 in
          autocorr > 0.5)"

record segment =
  seg_start :: real
  seg_end :: real
  seg_duration :: real

fun voicedLoop :: "nat list \<Rightarrow> nat \<Rightarrow> bool \<Rightarrow> real \<Rightarrow> segment list \<Rightarrow> segment list" where
  "voicedLoop [] i inVoiced startTime segments =
     (if inVoiced
      then segments @ [\<lparr>seg_start = startTime, seg_end = real i * 0.010,
                        seg_duration = real i * 0.010 - startTime\<rparr>]
      else segments)"
| "voicedLoop (f # fs) i inVoiced startTime segments =
     (let isVoiced = (0 < f) in
      if isVoiced \<and> \<not> inVoiced then voicedLoop fs (i + 1) True (real i * 0.010) segments
      else if \<not> isVoiced \<and> inVoiced
      then voicedLoop fs (i + 1) False startTime
             (segments @ [\<lparr>seg_start = startTime, seg_end = real i * 0.010,
                            seg_duration = real i * 0.010 - startTime\<rparr>])
      else voicedLoop fs (i + 1) inVoiced startTime segments)"

definition getVoicedSegments :: "nat list \<Rightarrow> segment list" where
  "getVoicedSegments voicingFrames = voicedLoop voicingFrames 0 False 0 []"

record voicing_features =
  voicing_frames :: "nat list"
  voicingRatio :: jsnum
  isVoiced :: bool
  voicedSegments :: "segment list"

definition analyzeVoicing :: "real \<Rightarrow> real list \<Rightarrow> voicing_features outcome" where
  "analyzeVoicing sampleRate audioData =
     (let frameSize = frameSizeOf sampleRate; hopSize = hopSizeOf sampleRate in
      case frameStarts (length audioData) frameSize hopSize 0 of
        Diverges \<Rightarrow> Diverges
      | Throws e \<Rightarrow> Throws e
      | Returns starts \<Rightarrow>
          (let voicingFrames =
                 map (\<lambda>i. if isFrameVoiced (slice audioData i (i + frameSize)) then 1 else 0) starts in
           case reduce (+) voicingFrames of
             Diverges \<Rightarrow> Diverges
           | Throws e \<Rightarrow> Throws e
           | Returns acc \<Rightarrow>
               (let ratio = js_div (Num (real acc)) (Num (real (length voicingFrames))) in
                Returns \<lparr>voicing_frames = voicingFrames,
                         voicingRatio = ratio,
                         isVoiced = js_gt ratio (Num 0.5),
                         voicedSegments = getVoicedSegments voicingFrames\<rparr>)))"

subsection \<open>Pitch\<close>

text \<open>
  \<open>estimatePitch\<close>: the lag of the largest autocorrelation among
  \<open>minLag \<le> lag < maxLag\<close>, starting from \<open>maxCorr = 0\<close> and \<open>bestLag = 0\<close>; the estimate is
  \<open>sampleRate / bestLag\<close>, which is \<open>Infinity\<close> when no lag had a positive correlation.
\<close>

definition pitchSearch :: "real list \<Rightarrow> nat \<Rightarrow> nat \<Rightarrow> real \<times> nat" where
  "pitchSearch frame minLag maxLag =
     foldl (\<lambda>(maxCorr, bestLag) lag.
              let corr = calculateAutocorrelation frame lag in
              if corr > maxCorr then (corr, lag) else (maxCorr, bestLag))
           (0, 0) [minLag..<maxLag]"

definition estimatePitch :: "real \<Rightarrow> real list \<Rightarrow> jsnum" where
  "estimatePitch sampleRate frame =
     (let minLag = nat \<lfloor>sampleRate / 400\<rfloor>;
          maxLag = nat \<lfloor>sampleRate / 50\<rfloor>;
          bestLag = snd (pitchSearch frame minLag maxLag)
      in js_div (Num sampleRate) (Num (real bestLag)))"

record pitch_features =
  pitch_values :: "jsnum list"
  pitch_mean :: jsnum
  pitch_min :: jsnum
  pitch_max :: jsnum
  pitch_contour :: "jsnum list"

definition analyzePitch :: "real \<Rightarrow> real list \<Rightarrow> pitch_features outcome" where
  "analyzePitch sampleRate audioData =
     (let frameSize = frameSizeOf sampleRate; hopSize = hopSizeOf sampleRate in
      case frameStarts (length audioData) frameSize hopSize 0 of
        Diverges \<Rightarrow> Diverges
      | Throws e \<Rightarrow> Throws e
      | Returns starts \<Rightarrow>
          (let pitchValues =
                 filter (\<lambda>pitch. js_gt pitch (Num 50))
                   (map (\<lambda>i. estimatePitch sampleRate (slice audioData i (i + frameSize))) starts);
               validPitches = filter (\<lambda>p. js_gt p (Num 50) \<and> js_lt p (Num 400)) pitchValues
           in Returns
                \<lparr>pitch_values = pitchValues,
                 pitch_mean =
                   (if 0 < length validPitches
                    then js_div (foldl js_add (hd validPitches) (tl validPitches))
                           (Num (real (length validPitches)))
                    else Num 0),
                 pitch_min = (if 0 < length validPitches then Math_min validPitches else Num 0),
                 pitch_max = (if 0 < length validPitches then Math_max validPitches else Num 0),
                 pitch_contour = validPitches\<rparr>))"

subsection \<open>Zero-crossing rate\<close>

record zcr_features =
  zcr_values :: "jsnum list"
  zcr_mean :: jsnum
  isFricative :: bool

definition isFricativeOf :: "jsnum list \<Rightarrow> bool outcome" where
  "isFricativeOf zcrValues =
     (case reduce js_add zcrValues of
        Diverges \<Rightarrow> Diverges
      | Throws e \<Rightarrow> Throws e
      | Returns acc \<Rightarrow>
          Returns (js_gt (js_div acc (Num (real (length zcrValues)))) (Num 0.15)))"

definition analyzeZeroCrossingRate :: "real \<Rightarrow> real list \<Rightarrow> zcr_features outcome" where
  "analyzeZeroCrossingRate sampleRate audioData =
     (let frameSize = frameSizeOf sampleRate; hopSize = hopSizeOf sampleRate in
      case frameStarts (length audioData) frameSize hopSize 0 of
        Diverges \<Rightarrow> Diverges
      | Throws e \<Rightarrow> Throws e
      | Returns starts \<Rightarrow>
          (let zcrValues =
                 map (\<lambda>i. calculateZeroCrossingRate (slice audioData i (i + frameSize))) starts in
           case reduce js_add zcrValues of
             Diverges \<Rightarrow> Diverges
           | Throws e \<Rightarrow> Throws e
           | Returns acc \<Rightarrow>
               (case isFricativeOf zcrValues of
                  Diverges \<Rightarrow> Diverges
                | Throws e \<Rightarrow> Throws e
                | Returns fric \<Rightarrow>
                    Returns \<lparr>zcr_values = zcrValues,
                             zcr_mean = js_div acc (Num (real (length zcrValues))),
                             isFricative = fric\<rparr>)))"

subsection \<open>Feature record, classification and quality\<close>

record quality =
  score :: int
  issues :: "string list"
  isGood :: bool

record summary =
  soundType :: string
  summary_quality :: quality

text \<open>
  The feature record with the fields the classifier and the quality assessment read. The
  spectral fields (formants, spectralCentroid, mfcc, timeSeriesData), which
  \<open>analyzeAudio\<close> computes after the pitch, and the free-text parts of the summary
  (phonemeHints, characteristics) are not part of this model.
\<close>

record features =
  feat_duration :: real
  energy :: energy_features
  voicing :: voicing_features
  pitch :: pitch_features
  zeroCrossingRate :: zcr_features
  summary :: "summary option"

definition classifySoundType :: "features \<Rightarrow> string" where
  "classifySoundType f =
     (if \<not> isVoiced (voicing f) \<and> isFricative (zeroCrossingRate f)
      then ''unvoiced fricative (f, s, sh, etc.)''
      else if isVoiced (voicing f) \<and> isFricative (zeroCrossingRate f)
      then ''voiced fricative (v, z, zh, etc.)''
      else if \<not> isVoiced (voicing f) \<and> \<not> isFricative (zeroCrossingRate f)
      then ''unvoiced stop (p, t, k, etc.)''
      else if isVoiced (voicing f) \<and> js_gt (pitch_mean (pitch f)) (Num 80)
      then ''voiced sound (vowel, nasal, or voiced stop)''
      else ''unknown'')"

definition assessQuality :: "features \<Rightarrow> quality" where
  "assessQuality f =
     (let issues0 = [];
          issues1 = (if js_lt (energy_max (energy f)) (Num 0.3)
                     then issues0 @ [''too quiet''] else issues0);
          issues2 = (if js_gt (energy_max (energy f)) (Num 0.95)
                     then issues1 @ [''clipping/distortion''] else issues1)
      in \<lparr>score = 100 - int (length issues2) * 20,
          issues = issues2,
          isGood = (length issues2 = 0)\<rparr>)"

definition generateSummary :: "features \<Rightarrow> summary" where
  "generateSummary f =
     \<lparr>soundType = classifySoundType f, summary_quality = assessQuality f\<rparr>"

text \<open>
  \<open>analyzeAudio\<close>: the object literal evaluates its fields in order, energy first; an
  exception in a stage leaves the call at once.
\<close>

definition analyzeAudio :: "real \<Rightarrow> real \<Rightarrow> real list \<Rightarrow> features outcome" where
  "analyzeAudio sampleRate clipDuration channelData =
     (case analyzeEnergy sampleRate channelData of
        Diverges \<Rightarrow> Diverges
      | Throws e \<Rightarrow> Throws e
      | Returns en \<Rightarrow>
     (case analyzeVoicing sampleRate channelData of
        Diverges \<Rightarrow> Diverges
      | Throws e \<Rightarrow> Throws e
      | Returns vo \<Rightarrow>
     (case analyzePitch sampleRate channelData of
        Diverges \<Rightarrow> Diverges
      | Throws e \<Rightarrow> Throws e
      | Returns pt \<Rightarrow>
     (case analyzeZeroCrossingRate sampleRate channelData of
        Diverges \<Rightarrow> Diverges
      | Throws e \<Rightarrow> Throws e
      | Returns zc \<Rightarrow>
          (let f = \<lparr>feat_duration = clipDuration, energy = en, voicing = vo, pitch = pt,
                    zeroCrossingRate = zc, summary = None\<rparr>
           in Returns (f\<lparr>summary := Some (generateSummary f)\<rparr>))))))"

section \<open>AcousticSimulator: the wave solver (acousticCore.js)\<close>

text \<open>
  Grids are arrays of rows. Pressures, velocities and the physical parameters are finite
  numbers, modelled as reals; grid dimensions are array lengths.
\<close>

type_synonym grid = "real list list"

definition createGrid :: "nat \<Rightarrow> nat \<Rightarrow> real \<Rightarrow> grid" where
  "createGrid w h v = replicate h (replicate w v)"

text \<open>\<open>options.field || default\<close>: an absent field and the falsy value 0 give the default.\<close>

definition orDefault :: "'a::zero option \<Rightarrow> 'a \<Rightarrow> 'a" where
  "orDefault v d = (case v of None \<Rightarrow> d | Some a \<Rightarrow> if a = 0 then d else a)"

record options =
  opt_width :: "nat option"
  opt_height :: "nat option"
  opt_cellSize :: "real option"
  opt_speedOfSound :: "real option"
  opt_airDensity :: "real option"
  opt_timeStep :: "real option"
  opt_dampingFactor :: "real option"

text \<open>
  A registered source. \<open>addSource\<close> stores a cell and a type string, \<open>addStringSource\<close>
  the two end cells, \<open>addMembraneSource\<close> the centre cell and the radius in cells (for
  radius 0 the JavaScript weight is \<open>cos(0/0)\<close>, not a number, which a real-valued grid
  does not represent). Coordinates went through \<open>Math.floor\<close>. The duration is \<open>None\<close>
  when it is \<open>Infinity\<close> (the default of \<open>addSource\<close>) or absent (string and membrane
  sources): in both cases \<open>elapsed > source.duration\<close> is false for every time.
\<close>

datatype geometry =
    PointAt int int string
  | StringLine int int int int
  | MembraneDisc int int int

record source =
  geometry :: geometry
  frequency :: real
  amplitude :: real
  duration :: "real option"
  startTime :: real
  phase :: real

record simulator =
  width :: nat
  height :: nat
  cellSize :: real
  speedOfSound :: real
  airDensity :: real
  timeStep :: real
  coeff :: real
  pressure :: grid
  pressurePrev :: grid
  pressureNext :: grid
  velocityX :: grid
  velocityY :: grid
  sources :: "source list"
  sourceValues :: grid
  dampingFactor :: real
  microphoneX :: nat
  microphoneY :: nat
  maxPressure :: real
  energyContent :: real
  time :: "real option"

definition AcousticSimulator :: "options \<Rightarrow> simulator" where
  "AcousticSimulator opts =
     (let w = orDefault (opt_width opts) 128;
          h = orDefault (opt_height opts) 128;
          dx = orDefault (opt_cellSize opts) 0.01;
          c = orDefault (opt_speedOfSound opts) 343;
          rho = orDefault (opt_airDensity opts) 1.2;
          dt0 = orDefault (opt_timeStep opts) 0.00001;
          cflNumber = (c * dt0) / dx;
          dt = (if cflNumber > 1 then (0.9 * dx) / c else dt0)
      in \<lparr>width = w, height = h, cellSize = dx, speedOfSound = c, airDensity = rho,
          timeStep = dt,
          coeff = ((c * dt) / dx) ^ 2,
          pressure = createGrid w h 0,
          pressurePrev = createGrid w h 0,
          pressureNext = createGrid w h 0,
          velocityX = createGrid w h 0,
          velocityY = createGrid w h 0,
          sources = [],
          sourceValues = createGrid w h 0,
          dampingFactor = orDefault (opt_dampingFactor opts) 0.9995,
          microphoneX = w div 2,
          microphoneY = h div 2,
          maxPressure = 0,
          energyContent = 0,
          time = None\<rparr>)"

text \<open>\<open>this.time || 0\<close> at registration.\<close>

definition timeOrZero :: "simulator \<Rightarrow> real" where
  "timeOrZero s = orDefault (time s) 0"

definition addSource :: "simulator \<Rightarrow> int \<Rightarrow> int \<Rightarrow> real \<Rightarrow> real \<Rightarrow> string \<Rightarrow> real option \<Rightarrow> simulator" where
  "addSource s x y f a ty d =
     s\<lparr>sources := sources s @
          [\<lparr>geometry = PointAt x y ty, frequency = f, amplitude = a, duration = d,
            startTime = timeOrZero s, phase = 0\<rparr>]\<rparr>"

definition addMembraneSource :: "simulator \<Rightarrow> int \<Rightarrow> int \<Rightarrow> int \<Rightarrow> real \<Rightarrow> real \<Rightarrow> simulator" where
  "addMembraneSource s cx cy r f a =
     s\<lparr>sources := sources s @
          [\<lparr>geometry = MembraneDisc cx cy r, frequency = f, amplitude = a, duration = None,
            startTime = timeOrZero s, phase = 0\<rparr>]\<rparr>"

definition addStringSource :: "simulator \<Rightarrow> int \<Rightarrow> int \<Rightarrow> int \<Rightarrow> int \<Rightarrow> real \<Rightarrow> real \<Rightarrow> simulator" where
  "addStringSource s x0 y0 x1 y1 f a =
     s\<lparr>sources := sources s @
          [\<lparr>geometry = StringLine x0 y0 x1 y1, frequency = f, amplitude = a, duration = None,
            startTime = timeOrZero s, phase = 0\<rparr>]\<rparr>"

subsection \<open>Sources\<close>

definition inBounds :: "nat \<Rightarrow> nat \<Rightarrow> int \<Rightarrow> int \<Rightarrow> bool" where
  "inBounds w h x y = (0 \<le> x \<and> x < int w \<and> 0 \<le> y \<and> y < int h)"

text \<open>\<open>if (this._inBounds(x, y)) this.sourceValues[y][x] += value\<close>, on the fresh grid.\<close>

definition addAt :: "nat \<Rightarrow> nat \<Rightarrow> grid \<Rightarrow> int \<times> int \<Rightarrow> real \<Rightarrow> grid" where
  "addAt w h g p v =
     (case p of (x, y) \<Rightarrow>
        if inBounds w h x y
        then g[nat y := (g ! nat y)[nat x := g ! nat y ! nat x + v]]
        else g)"

text \<open>
  The \<open>while (true)\<close> loop of \<open>_bresenhamLine\<close>; \<open>None\<close> stands for a loop that never
  reaches the end cell.
\<close>

partial_function (option) bresenhamLoop ::
  "int \<Rightarrow> int \<Rightarrow> int \<Rightarrow> int \<Rightarrow> int \<Rightarrow> int \<Rightarrow> int \<Rightarrow> int \<Rightarrow> int \<Rightarrow> (int \<times> int) list option" where
  "bresenhamLoop x1 y1 dx dy sx sy x y err =
     (if x = x1 \<and> y = y1 then Some [(x, y)]
      else Option.bind
             (bresenhamLoop x1 y1 dx dy sx sy
                (if 2 * err > - dy then x + sx else x)
                (if 2 * err < dx then y + sy else y)
                ((if 2 * err > - dy then err - dy else err) + (if 2 * err < dx then dx else 0)))
             (\<lambda>points. Some ((x, y) # points)))"

definition bresenhamLine :: "int \<Rightarrow> int \<Rightarrow> int \<Rightarrow> int \<Rightarrow> (int \<times> int) list option" where
  "bresenhamLine x0 y0 x1 y1 =
     (let dx = \<bar>x1 - x0\<bar>;
          dy = \<bar>y1 - y0\<bar>;
          sx = (if x0 < x1 then 1 else - 1);
          sy = (if y0 < y1 then 1 else - 1)
      in bresenhamLoop x1 y1 dx dy sx sy x0 y0 (dx - dy))"

text \<open>
  The window test of \<open>_updateSources\<close>: the source is skipped (\<open>continue\<close>) when
  \<open>elapsed < 0 || elapsed > source.duration\<close>.
\<close>

definition sourceSkipped :: "real \<Rightarrow> source \<Rightarrow> bool" where
  "sourceSkipped t s =
     (let elapsed = t - startTime s in
      elapsed < 0 \<or> (case duration s of None \<Rightarrow> False | Some d \<Rightarrow> elapsed > d))"

definition membraneCells :: "int \<Rightarrow> (int \<times> int) list" where
  "membraneCells r = concat (map (\<lambda>dy. map (\<lambda>dx. (dx, dy)) [- r..r]) [- r..r])"

definition splat :: "nat \<Rightarrow> nat \<Rightarrow> real \<Rightarrow> source \<Rightarrow> grid \<Rightarrow> grid outcome" where
  "splat w h t s g =
     (case geometry s of
        PointAt x y ty \<Rightarrow>
          if ty = ''sine'' \<or> ty = ''point''
          then Returns (addAt w h g (x, y)
                  (amplitude s * sin (2 * pi * frequency s * t + phase s)))
          else Returns g
      | StringLine x0 y0 x1 y1 \<Rightarrow>
          (case bresenhamLine x0 y0 x1 y1 of
             None \<Rightarrow> Diverges
           | Some points \<Rightarrow>
               Returns (foldl (\<lambda>g' p. addAt w h g' p (amplitude s * sin (2 * pi * frequency s * t)))
                          g points))
      | MembraneDisc cx cy r \<Rightarrow>
          Returns (foldl
            (\<lambda>g' (dx, dy).
               let dist = sqrt (real_of_int (dx * dx + dy * dy)) in
               if dist \<le> real_of_int r
               then addAt w h g' (cx + dx, cy + dy)
                      (amplitude s * sin (2 * pi * frequency s * t)
                         * cos ((pi * dist) / (2 * real_of_int r)))
               else g')
            g (membraneCells r)))"

fun updateLoop :: "nat \<Rightarrow> nat \<Rightarrow> real \<Rightarrow> source list \<Rightarrow> grid \<Rightarrow> grid outcome" where
  "updateLoop w h t [] g = Returns g"
| "updateLoop w h t (s # ss) g =
     (if sourceSkipped t s then updateLoop w h t ss g
      else (case splat w h t s g of
              Returns g' \<Rightarrow> updateLoop w h t ss g'
            | Throws e \<Rightarrow> Throws e
            | Diverges \<Rightarrow> Diverges))"

definition updateSources :: "nat \<Rightarrow> nat \<Rightarrow> source list \<Rightarrow> real \<Rightarrow> grid outcome" where
  "updateSources w h srcs t = updateLoop w h t srcs (createGrid w h 0)"

subsection \<open>One time step\<close>

text \<open>
  Reads of grid cells inside \<open>step\<close> are checked: a read outside the array of rows or
  outside a row is the result \<open>Throws IndexOutOfRange\<close> (in JavaScript the former is a
  TypeError and the latter the value \<open>undefined\<close>, which poisons the arithmetic).
\<close>

definition andThen :: "'a outcome \<Rightarrow> ('a \<Rightarrow> 'b outcome) \<Rightarrow> 'b outcome" where
  "andThen m f = (case m of Returns a \<Rightarrow> f a | Throws e \<Rightarrow> Throws e | Diverges \<Rightarrow> Diverges)"

fun traverse :: "('a \<Rightarrow> 'b outcome) \<Rightarrow> 'a list \<Rightarrow> 'b list outcome" where
  "traverse f [] = Returns []"
| "traverse f (a # as) =
     andThen (f a) (\<lambda>b. andThen (traverse f as) (\<lambda>bs. Returns (b # bs)))"

definition cell :: "grid \<Rightarrow> nat \<Rightarrow> nat \<Rightarrow> real outcome" where
  "cell g y x =
     (if y < length g \<and> x < length (g ! y) then Returns (g ! y ! x)
      else Throws IndexOutOfRange)"

definition laplacian :: "nat \<Rightarrow> nat \<Rightarrow> grid \<Rightarrow> nat \<Rightarrow> nat \<Rightarrow> real outcome" where
  "laplacian w h g x y =
     andThen (if y > 0 then cell g (y - 1) x else Returns 0) (\<lambda>up.
     andThen (if int y < int h - 1 then cell g (y + 1) x else Returns 0) (\<lambda>down.
     andThen (if x > 0 then cell g y (x - 1) else Returns 0) (\<lambda>left.
     andThen (if int x < int w - 1 then cell g y (x + 1) else Returns 0) (\<lambda>right.
     andThen (cell g y x) (\<lambda>center.
     Returns (up + down + left + right - 4 * center))))))"

text \<open>
  Writing the cells \<open>x < w\<close> of the rows \<open>y < h\<close> of an existing grid in place: the
  rows must exist, a short row grows, and cells beyond the written ones stay.
\<close>

definition storeGrid :: "grid \<Rightarrow> nat \<Rightarrow> nat \<Rightarrow> grid \<Rightarrow> grid outcome" where
  "storeGrid vals w h old =
     (if h \<le> length old
      then Returns (map (\<lambda>y. vals ! y @ drop w (old ! y)) [0..<h] @ drop h old)
      else Throws IndexOutOfRange)"

definition nextCell :: "simulator \<Rightarrow> grid \<Rightarrow> nat \<Rightarrow> nat \<Rightarrow> real outcome" where
  "nextCell s sv y x =
     andThen (laplacian (width s) (height s) (pressure s) x y) (\<lambda>lap.
     andThen (cell (pressure s) y x) (\<lambda>p.
     andThen (cell (pressurePrev s) y x) (\<lambda>pp.
     andThen (cell sv y x) (\<lambda>src.
     Returns ((2 * p - pp + coeff s * lap + src) * dampingFactor s)))))"

definition waveUpdate :: "simulator \<Rightarrow> grid \<Rightarrow> grid outcome" where
  "waveUpdate s sv =
     andThen (traverse (\<lambda>y. traverse (nextCell s sv y) [0..<width s]) [0..<height s]) (\<lambda>vals.
     storeGrid vals (width s) (height s) (pressureNext s))"

definition velocityCell :: "simulator \<Rightarrow> nat \<Rightarrow> nat \<Rightarrow> (real \<times> real) outcome" where
  "velocityCell s y x =
     andThen (if int x < int (width s) - 1
              then andThen (cell (pressure s) y (x + 1)) (\<lambda>a.
                   andThen (cell (pressure s) y x) (\<lambda>b. Returns (a - b)))
              else Returns 0) (\<lambda>dpDx.
     andThen (if int y < int (height s) - 1
              then andThen (cell (pressure s) (y + 1) x) (\<lambda>a.
                   andThen (cell (pressure s) y x) (\<lambda>b. Returns (a - b)))
              else Returns 0) (\<lambda>dpDy.
     Returns (- dpDx / (airDensity s * cellSize s), - dpDy / (airDensity s * cellSize s))))"

definition calculateVelocity :: "simulator \<Rightarrow> simulator outcome" where
  "calculateVelocity s =
     andThen (traverse (\<lambda>y. traverse (velocityCell s y) [0..<width s]) [0..<height s]) (\<lambda>vs.
     andThen (storeGrid (map (map fst) vs) (width s) (height s) (velocityX s)) (\<lambda>vx.
     andThen (storeGrid (map (map snd) vs) (width s) (height s) (velocityY s)) (\<lambda>vy.
     Returns (s\<lparr>velocityX := vx, velocityY := vy\<rparr>))))"

definition statsCell :: "simulator \<Rightarrow> nat \<Rightarrow> nat \<Rightarrow> (real \<times> real) outcome" where
  "statsCell s y x =
     andThen (cell (pressure s) y x) (\<lambda>pv.
     andThen (cell (velocityX s) y x) (\<lambda>vx.
     andThen (cell (velocityY s) y x) (\<lambda>vy.
     Returns (\<bar>pv\<bar>, \<bar>pv\<bar> * \<bar>pv\<bar> + 0.5 * airDensity s * (vx * vx + vy * vy)))))"

definition updateStats :: "simulator \<Rightarrow> simulator outcome" where
  "updateStats s =
     andThen (traverse (\<lambda>y. traverse (statsCell s y) [0..<width s]) [0..<height s]) (\<lambda>cs.
     Returns (s\<lparr>maxPressure := foldl (\<lambda>m c. max m (fst c)) 0 (concat cs),
               energyContent := foldl (\<lambda>e c. e + snd c) 0 (concat cs)\<rparr>))"

definition step :: "simulator \<Rightarrow> real \<Rightarrow> simulator outcome" where
  "step s t =
     andThen (updateSources (width s) (height s) (sources s) t) (\<lambda>sv.
     andThen (waveUpdate (s\<lparr>time := Some t, sourceValues := sv\<rparr>) sv) (\<lambda>nxt.
     andThen (calculateVelocity
                (s\<lparr>time := Some t, sourceValues := sv,
                   pressurePrev := pressure s, pressure := nxt, pressureNext := pressurePrev s\<rparr>))
       updateStats))"

subsection \<open>Shapes and the zero border\<close>

text \<open>
  A grid is well shaped when it has \<open>h\<close> rows of \<open>w\<close> cells, as \<open>_createGrid\<close> makes it;
  a solver state is well shaped when its pressure and velocity grids are. \<open>zeroBordered\<close>
  reads a grid as if it were surrounded by cells holding 0, and \<open>gridMax\<close> is the
  \<open>Math.max\<close> scan of \<open>_updateStats\<close> over the magnitudes of a grid.
\<close>

definition shaped :: "nat \<Rightarrow> nat \<Rightarrow> grid \<Rightarrow> bool" where
  "shaped w h g = (length g = h \<and> list_all (\<lambda>row. length row = w) g)"

definition shapedSim :: "simulator \<Rightarrow> bool" where
  "shapedSim s =
     (shaped (width s) (height s) (pressure s) \<and>
      shaped (width s) (height s) (pressurePrev s) \<and>
      shaped (width s) (height s) (pressureNext s) \<and>
      shaped (width s) (height s) (velocityX s) \<and>
      shaped (width s) (height s) (velocityY s))"

definition zeroBordered :: "grid \<Rightarrow> int \<Rightarrow> int \<Rightarrow> real" where
  "zeroBordered g x y =
     (if 0 \<le> y \<and> y < int (length g) \<and> 0 \<le> x \<and> x < int (length (g ! nat y))
      then g ! nat y ! nat x else 0)"

definition gridMax :: "grid \<Rightarrow> real" where
  "gridMax g = foldl (\<lambda>m c. max m \<bar>c\<bar>) 0 (concat g)"

section \<open>AudioBuffer (acousticCore.js)\<close>





section \<open>FFTAnalyzer.findPeaks (fftAnalyzer.js)\<close>

record peak =
  binIndex :: nat
  peak_magnitude :: real
  magnitudeDB :: real
  peak_frequency :: real

text \<open>
  The magnitude spectrum is the array \<open>this.magnitude\<close>, passed as the first argument; a
  read past its end is \<open>undefined\<close>, for which \<open>mag > 0\<close> is false.
\<close>

definition getMagnitudeDB :: "real list \<Rightarrow> nat \<Rightarrow> real" where
  "getMagnitudeDB mags i =
     (let dB = (if i < length mags \<and> mags ! i > 0 then 20 * log 10 (mags ! i) else - 100)
      in max dB (- 100))"

definition getFrequencyForBin :: "nat \<Rightarrow> nat \<Rightarrow> real \<Rightarrow> real" where
  "getFrequencyForBin bufferSize i rate = (real i * rate) / real bufferSize"

definition isLocalMax :: "real list \<Rightarrow> nat \<Rightarrow> nat \<Rightarrow> bool" where
  "isLocalMax mags minDistance i =
     list_all (\<lambda>j. \<not> (j \<noteq> 0 \<and> getMagnitudeDB mags (nat (int i + j)) > getMagnitudeDB mags i))
       [- int minDistance..int minDistance]"

definition findPeaks :: "real list \<Rightarrow> nat \<Rightarrow> real \<Rightarrow> nat \<Rightarrow> peak list" where
  "findPeaks mags bufferSize threshold minDistance =
     sort_key (\<lambda>p. - peak_magnitude p)
       (map (\<lambda>i. \<lparr>binIndex = i, peak_magnitude = mags ! i,
                  magnitudeDB = getMagnitudeDB mags i,
                  peak_frequency = getFrequencyForBin bufferSize i 44100\<rparr>)
          (filter (\<lambda>i. getMagnitudeDB mags i > threshold \<and> isLocalMax mags minDistance i)
             [minDistance..<length mags - minDistance]))"

section \<open>Classifier\<close>

text \<open>
  C9. \<open>classifySoundType\<close> is the five-row decision table over isVoiced, isFricative and
  the mean pitch, read top to bottom: unvoiced and fricative gives the unvoiced-fricative
  label, voiced and fricative the voiced-fricative label, unvoiced and not fricative the
  unvoiced-stop label, voiced (and not fricative) with mean pitch above 80 the voiced-sound
  label, and every other record \<open>unknown\<close>. The labels are the source's strings, which
  carry example phonemes in parentheses after the name.
\<close>

theorem classifySoundType_table:
  "classifySoundType f =
     (if \<not> isVoiced (voicing f) \<and> isFricative (zeroCrossingRate f)
        then ''unvoiced fricative (f, s, sh, etc.)''
      else if isVoiced (voicing f) \<and> isFricative (zeroCrossingRate f)
        then ''voiced fricative (v, z, zh, etc.)''
      else if \<not> isVoiced (voicing f) \<and> \<not> isFricative (zeroCrossingRate f)
        then ''unvoiced stop (p, t, k, etc.)''
      else if isVoiced (voicing f) \<and> js_gt (pitch_mean (pitch f)) (Num 80)
        then ''voiced sound (vowel, nasal, or voiced stop)''
      else ''unknown'')
   \<and> (classifySoundType f = ''unvoiced fricative (f, s, sh, etc.)''
        \<longleftrightarrow> \<not> isVoiced (voicing f) \<and> isFricative (zeroCrossingRate f))
   \<and> (classifySoundType f = ''voiced fricative (v, z, zh, etc.)''
        \<longleftrightarrow> isVoiced (voicing f) \<and> isFricative (zeroCrossingRate f))
   \<and> (classifySoundType f = ''unvoiced stop (p, t, k, etc.)''
        \<longleftrightarrow> \<not> isVoiced (voicing f) \<and> \<not> isFricative (zeroCrossingRate f))
   \<and> (classifySoundType f = ''voiced sound (vowel, nasal, or voiced stop)''
        \<longleftrightarrow> isVoiced (voicing f) \<and> \<not> isFricative (zeroCrossingRate f)
            \<and> js_gt (pitch_mean (pitch f)) (Num 80))
   \<and> (classifySoundType f = ''unknown''
        \<longleftrightarrow> isVoiced (voicing f) \<and> \<not> isFricative (zeroCrossingRate f)
            \<and> \<not> js_gt (pitch_mean (pitch f)) (Num 80))"
  by (simp add: classifySoundType_def)

section \<open>Solver construction: the CFL clamp\<close>

text \<open>
  C2. For every requested configuration whose effective speed of sound, time step and
  cell size (the requested value, or the default where the field is absent or 0) are
  positive, the constructed solver keeps the speed of sound and the cell size, replaces
  the time step by \<open>0.9 * cellSize / speedOfSound\<close> exactly when the requested CFL number
  \<open>c * dt / dx\<close> exceeds 1, stores \<open>coeff = (c * dt / dx)\<^sup>2\<close> of the effective values, and
  that square is at most 1. The constructor is a total function: it has no failing branch.
\<close>

theorem AcousticSimulator_cfl:
  assumes "0 < orDefault (opt_speedOfSound opts) 343"
    and "0 < orDefault (opt_timeStep opts) 0.00001"
    and "0 < orDefault (opt_cellSize opts) 0.01"
  shows "(let s = AcousticSimulator opts;
              c = orDefault (opt_speedOfSound opts) 343;
              dt = orDefault (opt_timeStep opts) 0.00001;
              dx = orDefault (opt_cellSize opts) 0.01
          in speedOfSound s = c \<and> cellSize s = dx
           \<and> timeStep s = (if c * dt / dx > 1 then 0.9 * dx / c else dt)
           \<and> coeff s = (speedOfSound s * timeStep s / cellSize s) ^ 2
           \<and> (speedOfSound s * timeStep s / cellSize s) ^ 2 \<le> 1)"
proof -
  define c where "c = orDefault (opt_speedOfSound opts) 343"
  define dt where "dt = orDefault (opt_timeStep opts) 0.00001"
  define dx where "dx = orDefault (opt_cellSize opts) 0.01"
  have pos: "0 < c" "0 < dt" "0 < dx"
    using assms by (simp_all add: c_def dt_def dx_def)
  have bound: "(c * (if c * dt / dx > 1 then 0.9 * dx / c else dt) / dx) ^ 2 \<le> 1"
  proof (cases "c * dt / dx > 1")
    case True
    have "c * (0.9 * dx / c) / dx = 0.9" using pos by simp
    with True show ?thesis by (simp add: power2_eq_square)
  next
    case False
    have "0 \<le> c * dt / dx" using pos by simp
    moreover have "c * dt / dx \<le> 1" using False by simp
    ultimately have "(c * dt / dx) ^ 2 \<le> 1" by (rule power_le_one)
    with False show ?thesis by simp
  qed
  from bound pos show ?thesis
    unfolding c_def dt_def dx_def AcousticSimulator_def Let_def
    by (simp split: if_splits)
qed

text \<open>
  An 8 by 8 grid with a requested time step of one second: the CFL number is 34300, the
  time step is clamped and the coefficient is 0.81.
\<close>

theorem AcousticSimulator_cfl_witness:
  "(let opts = \<lparr>opt_width = Some 8, opt_height = Some 8, opt_cellSize = Some 0.01,
                 opt_speedOfSound = Some 343, opt_airDensity = None, opt_timeStep = Some 1,
                 opt_dampingFactor = None\<rparr>;
        s = AcousticSimulator opts
    in timeStep s = 0.9 * 0.01 / 343 \<and> coeff s = 0.81 \<and> coeff s \<le> 1)"
  using AcousticSimulator_cfl [of "\<lparr>opt_width = Some 8, opt_height = Some 8, opt_cellSize = Some 0.01,
                 opt_speedOfSound = Some 343, opt_airDensity = None, opt_timeStep = Some 1,
                 opt_dampingFactor = None\<rparr>"]
  by (simp add: orDefault_def Let_def power2_eq_square AcousticSimulator_def)

section \<open>Source activity window\<close>






section \<open>AudioBuffer normalisation\<close>





section \<open>Spectral peaks\<close>

lemma isLocalMax_iff:
  assumes "d \<le> i"
  shows "isLocalMax mags d i \<longleftrightarrow>
         (\<forall>k. i - d \<le> k \<and> k \<le> i + d \<longrightarrow> getMagnitudeDB mags k \<le> getMagnitudeDB mags i)"
proof
  assume L: "isLocalMax mags d i"
  show "\<forall>k. i - d \<le> k \<and> k \<le> i + d \<longrightarrow> getMagnitudeDB mags k \<le> getMagnitudeDB mags i"
  proof (intro allI impI)
    fix k assume k: "i - d \<le> k \<and> k \<le> i + d"
    show "getMagnitudeDB mags k \<le> getMagnitudeDB mags i"
    proof (cases "k = i")
      case True then show ?thesis by simp
    next
      case False
      define j where "j = int k - int i"
      have "j \<in> set [- int d..int d]" using k assms by (auto simp: j_def)
      moreover have "j \<noteq> 0" using False by (simp add: j_def)
      moreover have "nat (int i + j) = k" by (simp add: j_def)
      ultimately show ?thesis
        using L by (auto simp: isLocalMax_def list_all_iff)
    qed
  qed
next
  assume R: "\<forall>k. i - d \<le> k \<and> k \<le> i + d \<longrightarrow> getMagnitudeDB mags k \<le> getMagnitudeDB mags i"
  show "isLocalMax mags d i"
    unfolding isLocalMax_def list_all_iff
  proof (intro ballI)
    fix j assume "j \<in> set [- int d..int d]"
    then have "i - d \<le> nat (int i + j) \<and> nat (int i + j) \<le> i + d"
      using assms by auto
    with R have "getMagnitudeDB mags (nat (int i + j)) \<le> getMagnitudeDB mags i" by blast
    then show "\<not> (j \<noteq> 0 \<and> getMagnitudeDB mags i < getMagnitudeDB mags (nat (int i + j)))"
      by simp
  qed
qed

text \<open>
  C5, as stated, fails on a plateau. In the flat spectrum 1, 1, 1 with threshold -30 dB and
  distance 1, bin 1 is returned as a peak although it does not strictly dominate bin 0: the
  test rejects a bin only when a neighbour is strictly greater.
\<close>

theorem findPeaks_strict_counterexample:
  "map binIndex (findPeaks [1, 1, 1] 1024 (- 30) 1) = [1]
   \<and> \<not> getMagnitudeDB [1, 1, 1] 0 < getMagnitudeDB [1, 1, 1] 1"
  by (simp add: findPeaks_def getMagnitudeDB_def isLocalMax_def upto.simps)

text \<open>
  C5, amended. \<open>findPeaks\<close> returns exactly the bins \<open>i\<close> with
  \<open>minDistance \<le> i < length - minDistance\<close> whose dB magnitude exceeds the threshold and
  is not exceeded by any bin within \<open>minDistance\<close> of it (ties allowed), each once,
  carrying the magnitude and dB value of its bin, sorted by descending magnitude.
\<close>

theorem findPeaks_spec:
  "binIndex ` set (findPeaks mags n th d) =
     {i. d \<le> i \<and> i + d < length mags \<and> getMagnitudeDB mags i > th \<and>
         (\<forall>k. i - d \<le> k \<and> k \<le> i + d \<longrightarrow> getMagnitudeDB mags k \<le> getMagnitudeDB mags i)}
   \<and> distinct (map binIndex (findPeaks mags n th d))
   \<and> sorted_wrt (\<lambda>p q. peak_magnitude p \<ge> peak_magnitude q) (findPeaks mags n th d)
   \<and> (\<forall>p \<in> set (findPeaks mags n th d).
         peak_magnitude p = mags ! binIndex p \<and>
         magnitudeDB p = getMagnitudeDB mags (binIndex p))"
proof -
  define mk where "mk = (\<lambda>i. \<lparr>binIndex = i, peak_magnitude = mags ! i,
                  magnitudeDB = getMagnitudeDB mags i,
                  peak_frequency = getFrequencyForBin n i 44100\<rparr>)"
  define cands where "cands = filter (\<lambda>i. getMagnitudeDB mags i > th \<and> isLocalMax mags d i)
             [d..<length mags - d]"
  have fp: "findPeaks mags n th d = sort_key (\<lambda>p. - peak_magnitude p) (map mk cands)"
    by (simp add: findPeaks_def mk_def cands_def)
  have bi: "map binIndex (map mk cands) = cands"
    by (simp add: mk_def comp_def)
  have st: "set (findPeaks mags n th d) = mk ` set cands"
    by (simp add: fp)
  have "binIndex ` set (findPeaks mags n th d) = set cands"
    using bi by (metis st list.set_map)
  also have "\<dots> = {i. d \<le> i \<and> i + d < length mags \<and> getMagnitudeDB mags i > th \<and>
         (\<forall>k. i - d \<le> k \<and> k \<le> i + d \<longrightarrow> getMagnitudeDB mags k \<le> getMagnitudeDB mags i)}"
    using isLocalMax_iff [of d _ mags] by (auto simp: cands_def)
  finally have 1: "binIndex ` set (findPeaks mags n th d) =
     {i. d \<le> i \<and> i + d < length mags \<and> getMagnitudeDB mags i > th \<and>
         (\<forall>k. i - d \<le> k \<and> k \<le> i + d \<longrightarrow> getMagnitudeDB mags k \<le> getMagnitudeDB mags i)}" .
  have dc: "distinct cands" by (simp add: cands_def)
  have "inj_on mk (set cands)" by (rule inj_onI) (simp add: mk_def)
  with dc have "distinct (map mk cands)" by (simp add: distinct_map)
  then have dfp: "distinct (findPeaks mags n th d)" by (simp add: fp)
  have "inj_on binIndex (set (findPeaks mags n th d))"
    unfolding st by (rule inj_onI) (auto simp: mk_def)
  with dfp have 2: "distinct (map binIndex (findPeaks mags n th d))"
    by (simp add: distinct_map)
  have "sorted (map (\<lambda>p. - peak_magnitude p) (findPeaks mags n th d))"
    by (simp add: fp)
  then have 3: "sorted_wrt (\<lambda>p q. peak_magnitude p \<ge> peak_magnitude q) (findPeaks mags n th d)"
    by (simp add: sorted_map)
  have 4: "\<forall>p \<in> set (findPeaks mags n th d).
         peak_magnitude p = mags ! binIndex p \<and>
         magnitudeDB p = getMagnitudeDB mags (binIndex p)"
    unfolding st by (auto simp: mk_def)
  from 1 2 3 4 show ?thesis by blast
qed

text \<open>A single line at bin 1 of a four-bin spectrum.\<close>

theorem findPeaks_spec_witness:
  "map binIndex (findPeaks [0, 1, 0, 0] 1024 (- 30) 1) = [1]
   \<and> distinct (map binIndex (findPeaks [0, 1, 0, 0] 1024 (- 30) 1))"
proof -
  have "map binIndex (findPeaks [0, 1, 0, 0] 1024 (- 30) 1) = [1]"
    by (simp add: findPeaks_def getMagnitudeDB_def isLocalMax_def upto.simps)
  moreover have "distinct (map binIndex (findPeaks [0, 1, 0, 0] 1024 (- 30) 1))"
    using findPeaks_spec [of "[0, 1, 0, 0]" 1024 "- 30" 1] by (elim conjE)
  ultimately show ?thesis by (rule conjI)
qed

section \<open>Frames\<close>

lemma frameStarts_returns:
  "0 < hop \<Longrightarrow>
   \<exists>starts. frameStarts len fs hop i = Returns starts \<and>
            set starts = {j. (\<exists>k. j = i + k * hop) \<and> j + fs < len}"
proof (induction len fs hop i rule: frameStarts.induct)
  case (1 len fs hop i)
  show ?case
  proof (cases "i + fs < len")
    case False
    then have "{j. (\<exists>k. j = i + k * hop) \<and> j + fs < len} = {}" by auto
    with False show ?thesis by (subst frameStarts.simps) simp
  next
    case True
    from "1.IH" [OF True] "1.prems" obtain starts where
      st: "frameStarts len fs hop (i + hop) = Returns starts"
      and set_st: "set starts = {j. (\<exists>k. j = i + hop + k * hop) \<and> j + fs < len}"
      by auto
    have "{j. (\<exists>k. j = i + k * hop) \<and> j + fs < len}
          = insert i {j. (\<exists>k. j = i + hop + k * hop) \<and> j + fs < len}"
    proof (intro set_eqI iffI)
      fix j assume "j \<in> {j. (\<exists>k. j = i + k * hop) \<and> j + fs < len}"
      then obtain k where k: "j = i + k * hop" and lt: "j + fs < len" by auto
      show "j \<in> insert i {j. (\<exists>k. j = i + hop + k * hop) \<and> j + fs < len}"
      proof (cases k)
        case 0 with k show ?thesis by simp
      next
        case (Suc k') with k lt show ?thesis by auto
      qed
    next
      fix j assume "j \<in> insert i {j. (\<exists>k. j = i + hop + k * hop) \<and> j + fs < len}"
      then consider "j = i" | k where "j = i + hop + k * hop" "j + fs < len" by auto
      then show "j \<in> {j. (\<exists>k. j = i + k * hop) \<and> j + fs < len}"
      proof cases
        case 1
        then have "j = i + 0 * hop" by simp
        with 1 True show ?thesis by blast
      next
        case 2
        then have "j = i + Suc k * hop" by simp
        with 2 show ?thesis by blast
      qed
    qed
    with st set_st "1.prems" True show ?thesis
      by (subst frameStarts.simps) simp
  qed
qed

lemma hop_le_frame: "hopSizeOf sr \<le> frameSizeOf sr"
proof (cases "0 \<le> sr")
  case True
  then have "sr * 0.010 \<le> sr * 0.025" by simp
  then have "\<lfloor>sr * 0.010\<rfloor> \<le> \<lfloor>sr * 0.025\<rfloor>" by (rule floor_mono)
  then show ?thesis by (simp add: hopSizeOf_def frameSizeOf_def)
next
  case False
  then have "sr * 0.010 < 0" by simp
  then have "\<lfloor>sr * 0.010\<rfloor> < 0" by (simp add: floor_less_iff)
  then show ?thesis by (simp add: hopSizeOf_def)
qed

section \<open>Maxima of finite numbers\<close>

lemma foldl_js_max_Num:
  "foldl js_max (Num a) (map Num es) = Num (Max (insert a (set es)))"
proof (induction es arbitrary: a)
  case Nil show ?case by simp
next
  case (Cons e es)
  have "js_max (Num a) (Num e) = Num (max a e)" by (simp add: max_def)
  moreover have "Max (insert (max a e) (set es)) = Max (insert a (insert e (set es)))"
    by (cases "set es = {}") (simp_all add: max.assoc)
  ultimately show ?case using Cons by simp
qed

lemma Math_max_Num:
  "es \<noteq> [] \<Longrightarrow> Math_max (map Num es) = Num (Max (set es))"
  by (cases es) (simp_all add: Math_max_def foldl_js_max_Num)

lemma foldl_js_min_Num:
  "foldl js_min (Num a) (map Num es) = Num (Min (insert a (set es)))"
proof (induction es arbitrary: a)
  case Nil show ?case by simp
next
  case (Cons e es)
  have "js_min (Num a) (Num e) = Num (min a e)" by (simp add: min_def)
  moreover have "Min (insert (min a e) (set es)) = Min (insert a (insert e (set es)))"
    by (cases "set es = {}") (simp_all add: min.assoc)
  ultimately show ?case using Cons by simp
qed

lemma Math_min_Num:
  "es \<noteq> [] \<Longrightarrow> Math_min (map Num es) = Num (Min (set es))"
  by (cases es) (simp_all add: Math_min_def foldl_js_min_Num)

lemma foldl_js_add_Num:
  "foldl js_add (Num a) (map Num es) = Num (a + sum_list es)"
  by (induction es arbitrary: a) (simp_all add: add.assoc)

lemma reduce_js_add_Num:
  "es \<noteq> [] \<Longrightarrow> reduce js_add (map Num es) = Returns (Num (sum_list es))"
  by (cases es) (simp_all add: foldl_js_add_Num)

section \<open>Clips without a frame\<close>

lemma frameStarts_none: "len \<le> i + frameSize \<Longrightarrow> frameStarts len frameSize hopSize i = Returns []"
  by (subst frameStarts.simps) simp

lemma analyzeEnergy_no_frame:
  "length audioData \<le> frameSizeOf sr \<Longrightarrow> analyzeEnergy sr audioData = Throws TypeError"
  by (simp add: analyzeEnergy_def Let_def frameStarts_none)

text \<open>
  C1. The contract is that \<open>analyzeAudio\<close> returns a feature record for every nonempty
  clip of finite samples, also for clips shorter than one analysis frame. The code does
  not: a clip of at most \<open>frameSize\<close> samples has no frame, and \<open>analyzeEnergy\<close>, the first
  stage, then calls \<open>reduce\<close> without an initial value on an empty array, which throws a
  TypeError. (\<open>analyzePitch\<close> guards the empty case, and \<open>isFrameVoiced\<close> passes an initial
  value to \<open>reduce\<close>.)
\<close>

theorem analyzeAudio_short_clip_throws:
  "length channelData \<le> frameSizeOf sr \<Longrightarrow> analyzeAudio sr d channelData = Throws TypeError"
  by (simp add: analyzeAudio_def analyzeEnergy_no_frame)

text \<open>A one-sample clip at 44100 Hz.\<close>

theorem analyzeAudio_short_clip_throws_witness:
  "analyzeAudio 44100 (1 / 44100) [0.5] = Throws TypeError"
proof -
  have "length [0.5::real] \<le> frameSizeOf 44100" by (simp add: frameSizeOf_def)
  then show ?thesis by (rule analyzeAudio_short_clip_throws)
qed

section \<open>Energy normalisation and the quality score\<close>

lemma frameEnergy_Num:
  "0 < fs \<Longrightarrow> frameEnergy audioData fs i
      = Num ((\<Sum>s\<leftarrow>slice audioData i (i + fs). s * s) / real fs)"
  by (simp add: frameEnergy_def)

lemma sumsq_nonneg: "0 \<le> (\<Sum>s\<leftarrow>xs. s * s :: real)"
  by (induction xs) simp_all

lemma sumsq_pos: "x \<in> set xs \<Longrightarrow> x \<noteq> 0 \<Longrightarrow> 0 < (\<Sum>s\<leftarrow>xs. s * s :: real)"
proof (induction xs)
  case Nil then show ?case by simp
next
  case (Cons a xs)
  show ?case
  proof (cases "x = a")
    case True
    with Cons.prems have "0 < a * a" by (auto simp: zero_less_mult_iff)
    with sumsq_nonneg [of xs] show ?thesis by simp
  next
    case False
    with Cons have "0 < (\<Sum>s\<leftarrow>xs. s * s)" by simp
    moreover have "0 \<le> a * a" by simp
    ultimately have "0 < a * a + (\<Sum>s\<leftarrow>xs. s * s)" by (rule add_nonneg_pos [rotated])
    then show ?thesis by simp
  qed
qed

lemma slice_nth:
  "i + fs \<le> length xs \<Longrightarrow> j < fs \<Longrightarrow> xs ! (i + j) \<in> set (slice xs i (i + fs))"
proof -
  assume a: "i + fs \<le> length xs" "j < fs"
  then have "take fs (drop i xs) ! j = xs ! (i + j)" by simp
  moreover from a have "j < length (take fs (drop i xs))" by simp
  ultimately show ?thesis
    unfolding slice_def by (metis add_diff_cancel_left' nth_mem)
qed

lemma dB_of_one:
  "0 < 20 * log 10 (1 + 1 / 10 ^ 10) \<and> 20 * log 10 (1 + 1 / 10 ^ 10) < (1 / 10 ^ 8 :: real)"
proof -
  define x :: real where "x = 1 / 10 ^ 10"
  have x0: "0 < x" by (simp add: x_def)
  have "exp (1::real) \<le> 3" by (rule exp_le)
  then have "exp (1::real) \<le> 10" by simp
  then have l10: "1 \<le> ln (10::real)" by (simp add: ln_ge_iff)
  have "ln (1 + x) \<le> x" using x0 by (simp add: ln_add_one_self_le_self)
  moreover have "0 < ln (1 + x)" using x0 by simp
  ultimately have "ln (1 + x) / ln 10 \<le> x"
    using l10 by (smt (verit) divide_le_eq_1_pos mult_le_cancel_left_pos nonzero_mult_div_cancel_left divide_le_eq)
  then have up: "log 10 (1 + x) \<le> x" by (simp add: log_def)
  have lo: "0 < log 10 (1 + x)" using x0 by simp
  have "20 * x < 1 / 10 ^ 8" by (simp add: x_def)
  with up lo show ?thesis unfolding x_def by linarith
qed


lemma analyzeEnergy_normalised:
  assumes st: "frameStarts (length audioData) (frameSizeOf sr) (hopSizeOf sr) 0 = Returns starts"
    and fs: "0 < frameSizeOf sr"
    and mem: "i \<in> set starts"
    and pos: "0 < (\<Sum>s\<leftarrow>slice audioData i (i + frameSizeOf sr). s * s)"
  shows "\<exists>ns. ns \<noteq> [] \<and> Max (set ns) = 1 \<and> (\<forall>r\<in>set ns. 0 \<le> r \<and> r \<le> 1) \<and>
           analyzeEnergy sr audioData =
             Returns \<lparr>energy_values = map Num ns,
                      energy_mean = Num (sum_list ns / real (length ns)),
                      energy_max = Num 1,
                      energy_min = Num (Min (set ns)),
                      energy_dB = Num (20 * log 10 (1 + 1 / 10 ^ 10))\<rparr>"
proof -
  define sq where "sq = (\<lambda>i. (\<Sum>s\<leftarrow>slice audioData i (i + frameSizeOf sr). s * s) / real (frameSizeOf sr))"
  define es where "es = map sq starts"
  define M where "M = Max (set es)"
  define ns where "ns = map (\<lambda>e. e / M) es"
  have en: "map (frameEnergy audioData (frameSizeOf sr)) starts = map Num es"
    using fs by (simp add: es_def sq_def frameEnergy_Num)
  have ne: "es \<noteq> []" using mem by (auto simp: es_def)
  have nonneg: "\<forall>e\<in>set es. 0 \<le> e"
    using fs by (auto simp: es_def sq_def sumsq_nonneg)
  have "0 < sq i" using pos fs by (simp add: sq_def)
  moreover have "sq i \<in> set es" using mem by (simp add: es_def)
  ultimately have Mpos: "0 < M"
    unfolding M_def by (meson List.finite_set Max_ge less_le_trans)
  have Min_set: "M \<in> set es" unfolding M_def using ne by (intro Max_in) simp_all
  have le: "\<forall>e\<in>set es. e \<le> M" unfolding M_def by simp
  have mx: "Math_max (map Num es) = Num M"
    using ne by (simp add: Math_max_Num M_def)
  have norm: "map (\<lambda>e. js_div e (Num M)) (map Num es) = map Num ns"
    using Mpos by (simp add: ns_def)
  have nne: "ns \<noteq> []" using ne by (simp add: ns_def)
  have rng: "\<forall>r\<in>set ns. 0 \<le> r \<and> r \<le> 1"
    using nonneg le Mpos by (auto simp: ns_def)
  have "1 \<in> set ns" using Min_set Mpos by (force simp: ns_def)
  with rng have one: "Max (set ns) = 1"
    by (intro Max_eqI) auto
  have red: "reduce js_add (map Num ns) = Returns (Num (sum_list ns))"
    using nne by (rule reduce_js_add_Num)
  have "analyzeEnergy sr audioData =
             Returns \<lparr>energy_values = map Num ns,
                      energy_mean = Num (sum_list ns / real (length ns)),
                      energy_max = Num 1,
                      energy_min = Num (Min (set ns)),
                      energy_dB = Num (20 * log 10 (1 + 1 / 10 ^ 10))\<rparr>"
    using nne
    by (simp add: analyzeEnergy_def Let_def st en mx norm red Math_max_Num Math_min_Num one
        del: map_map)
  with nne one rng show ?thesis by blast
qed

text \<open>
  C10, amended. For every clip and sample rate with a positive hop in which some analysed
  frame (a frame starting at \<open>k * hopSize\<close> with \<open>k * hopSize + frameSize < length\<close>) holds a
  nonzero sample, \<open>analyzeEnergy\<close> returns; the per-frame energies are normalised against
  the clip's own maximum, so they lie between 0 and 1, \<open>energy.max\<close> is exactly 1 and
  \<open>energy.dB\<close> lies between 0 and \<open>1e-8\<close>; consequently \<open>assessQuality\<close> of any record with
  this energy reports the single issue \<open>clipping/distortion\<close> and the score 80.
\<close>

theorem analyzeEnergy_peak_is_one:
  assumes hop: "0 < hopSizeOf sr"
    and frame: "k * hopSizeOf sr + frameSizeOf sr < length audioData"
    and j: "j < frameSizeOf sr"
    and nz: "audioData ! (k * hopSizeOf sr + j) \<noteq> 0"
  shows "\<exists>e x. analyzeEnergy sr audioData = Returns e \<and> energy_max e = Num 1
           \<and> energy_dB e = Num x \<and> 0 < x \<and> x < 1 / 10 ^ 8
           \<and> (\<forall>v\<in>set (energy_values e). \<exists>r. v = Num r \<and> 0 \<le> r \<and> r \<le> 1)
           \<and> (\<forall>f. energy f = e \<longrightarrow>
                 assessQuality f = \<lparr>score = 80, issues = [''clipping/distortion''], isGood = False\<rparr>)"
proof -
  from frameStarts_returns [OF hop, of "length audioData" "frameSizeOf sr" 0]
  obtain starts where
    st: "frameStarts (length audioData) (frameSizeOf sr) (hopSizeOf sr) 0 = Returns starts"
    and set_st: "set starts = {i. (\<exists>k. i = 0 + k * hopSizeOf sr) \<and> i + frameSizeOf sr < length audioData}"
    by blast
  have mem: "k * hopSizeOf sr \<in> set starts" using frame by (auto simp: set_st)
  have fs: "0 < frameSizeOf sr" using j by simp
  have "audioData ! (k * hopSizeOf sr + j)
          \<in> set (slice audioData (k * hopSizeOf sr) (k * hopSizeOf sr + frameSizeOf sr))"
    using frame j by (intro slice_nth) simp_all
  then have pos: "0 < (\<Sum>s\<leftarrow>slice audioData (k * hopSizeOf sr) (k * hopSizeOf sr + frameSizeOf sr). s * s)"
    using nz by (rule sumsq_pos)
  from analyzeEnergy_normalised [OF st fs mem pos] obtain ns where
    ns: "\<forall>r\<in>set ns. 0 \<le> r \<and> r \<le> 1"
    and ae: "analyzeEnergy sr audioData =
             Returns \<lparr>energy_values = map Num ns,
                      energy_mean = Num (sum_list ns / real (length ns)),
                      energy_max = Num 1,
                      energy_min = Num (Min (set ns)),
                      energy_dB = Num (20 * log 10 (1 + 1 / 10 ^ 10))\<rparr>"
    by blast
  define e where "e = \<lparr>energy_values = map Num ns,
                      energy_mean = Num (sum_list ns / real (length ns)),
                      energy_max = Num 1,
                      energy_min = Num (Min (set ns)),
                      energy_dB = Num (20 * log 10 (1 + 1 / 10 ^ 10))\<rparr>"
  have 1: "analyzeEnergy sr audioData = Returns e" by (simp add: ae e_def)
  have 2: "energy_max e = Num 1" by (simp add: e_def)
  have 3: "energy_dB e = Num (20 * log 10 (1 + 1 / 10 ^ 10))" by (simp add: e_def)
  have 4: "\<forall>v\<in>set (energy_values e). \<exists>r. v = Num r \<and> 0 \<le> r \<and> r \<le> 1"
    using ns by (auto simp: e_def)
  have 5: "\<forall>f. energy f = e \<longrightarrow>
                 assessQuality f = \<lparr>score = 80, issues = [''clipping/distortion''], isGood = False\<rparr>"
    using 2 by (simp add: assessQuality_def js_gt_def)
  from 1 2 3 4 5 dB_of_one show ?thesis by blast
qed


text \<open>A clip of 1103 samples of value 1 at 44100 Hz: one frame of 1102 samples.\<close>

theorem analyzeEnergy_peak_is_one_witness:
  "\<exists>e. analyzeEnergy 44100 (replicate 1103 1) = Returns e \<and> energy_max e = Num 1
       \<and> assessQuality \<lparr>feat_duration = 1103 / 44100, energy = e,
            voicing = \<lparr>voicing_frames = [1], voicingRatio = Num 1, isVoiced = True, voicedSegments = []\<rparr>,
            pitch = \<lparr>pitch_values = [], pitch_mean = Num 0, pitch_min = Num 0, pitch_max = Num 0,
                     pitch_contour = []\<rparr>,
            zeroCrossingRate = \<lparr>zcr_values = [Num 0], zcr_mean = Num 0, isFricative = False\<rparr>,
            summary = None\<rparr>
         = \<lparr>score = 80, issues = [''clipping/distortion''], isGood = False\<rparr>"
proof -
  have "0 < hopSizeOf 44100" by (simp add: hopSizeOf_def)
  moreover have "0 * hopSizeOf 44100 + frameSizeOf 44100 < length (replicate 1103 (1::real))"
    by (simp add: frameSizeOf_def)
  moreover have "0 < frameSizeOf 44100" by (simp add: frameSizeOf_def)
  moreover have "replicate 1103 (1::real) ! (0 * hopSizeOf 44100 + 0) \<noteq> 0"
    by (simp only: mult_zero_left add_0_right nth_replicate zero_less_numeral one_neq_zero simp_thms)
  ultimately obtain e where
    "analyzeEnergy 44100 (replicate 1103 1) = Returns e" "energy_max e = Num 1"
    "\<forall>f. energy f = e \<longrightarrow>
        assessQuality f = \<lparr>score = 80, issues = [''clipping/distortion''], isGood = False\<rparr>"
    using analyzeEnergy_peak_is_one [of 44100 0 "replicate 1103 1" 0] by blast
  then show ?thesis by simp
qed

section \<open>A silent frame\<close>

lemma sum_list_zero: "(\<And>x. x \<in> set xs \<Longrightarrow> f x = (0::real)) \<Longrightarrow> (\<Sum>x\<leftarrow>xs. f x) = 0"
  by (induction xs) simp_all

lemma foldl_sumsq_zero: "foldl (\<lambda>acc s. acc + s * s) (0::real) (replicate n 0) = 0"
  by (induction n) simp_all

lemma isFrameVoiced_silent: "0 < n \<Longrightarrow> \<not> isFrameVoiced (replicate n 0)"
  by (simp add: isFrameVoiced_def Let_def foldl_sumsq_zero)

lemma zcr_silent: "0 < n \<Longrightarrow> calculateZeroCrossingRate (replicate n 0) = Num 0"
proof -
  assume n: "0 < n"
  have "filter (\<lambda>i. (0 \<le> replicate n (0::real) ! i \<and> replicate n (0::real) ! (i - 1) < 0)
                    \<or> (replicate n (0::real) ! i < 0 \<and> 0 \<le> replicate n (0::real) ! (i - 1)))
               [1..<n] = []"
    by (auto simp: filter_empty_conv)
  with n show ?thesis by (simp add: calculateZeroCrossingRate_def)
qed

lemma autocorr_silent: "calculateAutocorrelation (replicate n 0) lag = 0"
proof -
  have "(\<Sum>i\<leftarrow>[0..<n - lag]. replicate n (0::real) ! i * replicate n 0 ! (i + lag)) = 0"
    by (rule sum_list_zero) auto
  then show ?thesis by (simp add: calculateAutocorrelation_def Let_def)
qed

lemma pitchSearch_silent_aux:
  "foldl (\<lambda>(maxCorr, bestLag) lag.
              let corr = calculateAutocorrelation (replicate n 0) lag in
              if corr > maxCorr then (corr, lag) else (maxCorr, bestLag))
           (0, 0) lags = (0, 0)"
  by (induction lags) (simp_all add: autocorr_silent)

lemma estimatePitch_silent: "0 < sr \<Longrightarrow> estimatePitch sr (replicate n 0) = PosInf"
  by (simp add: estimatePitch_def pitchSearch_def pitchSearch_silent_aux)

lemma slice_silent_head: "slice (replicate n (0::real) @ [1]) 0 (0 + n) = replicate n 0"
  by (simp add: slice_def)

lemma analyzeAudio_unseen_sample:
  assumes fs: "frameSizeOf sr = n" and hs: "hopSizeOf sr = h"
    and n: "0 < n" and h: "0 < h" and sr: "0 < sr"
  shows "analyzeAudio sr d (replicate n 0 @ [1]) =
     Returns \<lparr>feat_duration = d,
       energy = \<lparr>energy_values = [NaN], energy_mean = NaN, energy_max = NaN,
                  energy_min = NaN, energy_dB = NaN\<rparr>,
       voicing = \<lparr>voicing_frames = [0], voicingRatio = Num 0, isVoiced = False,
                   voicedSegments = []\<rparr>,
       pitch = \<lparr>pitch_values = [PosInf], pitch_mean = Num 0, pitch_min = Num 0,
                 pitch_max = Num 0, pitch_contour = []\<rparr>,
       zeroCrossingRate = \<lparr>zcr_values = [Num 0], zcr_mean = Num 0, isFricative = False\<rparr>,
       summary = Some \<lparr>soundType = ''unvoiced stop (p, t, k, etc.)'',
                        summary_quality = \<lparr>score = 100, issues = [], isGood = True\<rparr>\<rparr>\<rparr>"
proof -
  define audioData :: "real list" where "audioData = replicate n 0 @ [1]"
  have len: "length audioData = Suc n" by (simp add: audioData_def)
  have "frameStarts (Suc n) n h 0 = Returns [0]"
    using h by (subst frameStarts.simps) (simp add: frameStarts_none)
  then have st: "frameStarts (length audioData) (frameSizeOf sr) (hopSizeOf sr) 0 = Returns [0]"
    by (simp add: len fs hs)
  have sl: "slice audioData 0 n = replicate n 0"
    using slice_silent_head [of n] by (simp add: audioData_def)
  have fe: "frameEnergy audioData n 0 = Num 0"
    using n by (simp add: frameEnergy_def sl sum_list_replicate)
  have en: "analyzeEnergy sr audioData =
      Returns \<lparr>energy_values = [NaN], energy_mean = NaN, energy_max = NaN,
                  energy_min = NaN, energy_dB = NaN\<rparr>"
    unfolding analyzeEnergy_def Let_def st
    by (simp add: fs fe Math_max_def Math_min_def)
  have vo: "analyzeVoicing sr audioData =
      Returns \<lparr>voicing_frames = [0], voicingRatio = Num 0, isVoiced = False,
                   voicedSegments = []\<rparr>"
    unfolding analyzeVoicing_def Let_def st
    using n by (simp add: fs sl isFrameVoiced_silent js_gt_def getVoicedSegments_def)
  have pt: "analyzePitch sr audioData =
      Returns \<lparr>pitch_values = [PosInf], pitch_mean = Num 0, pitch_min = Num 0,
                 pitch_max = Num 0, pitch_contour = []\<rparr>"
    unfolding analyzePitch_def Let_def st
    using sr by (simp add: fs sl estimatePitch_silent js_gt_def)
  have zc: "analyzeZeroCrossingRate sr audioData =
      Returns \<lparr>zcr_values = [Num 0], zcr_mean = Num 0, isFricative = False\<rparr>"
    unfolding analyzeZeroCrossingRate_def Let_def st
    using n by (simp add: isFricativeOf_def fs sl zcr_silent js_gt_def)
  have "analyzeAudio sr d audioData =
     Returns \<lparr>feat_duration = d,
       energy = \<lparr>energy_values = [NaN], energy_mean = NaN, energy_max = NaN,
                  energy_min = NaN, energy_dB = NaN\<rparr>,
       voicing = \<lparr>voicing_frames = [0], voicingRatio = Num 0, isVoiced = False,
                   voicedSegments = []\<rparr>,
       pitch = \<lparr>pitch_values = [PosInf], pitch_mean = Num 0, pitch_min = Num 0,
                 pitch_max = Num 0, pitch_contour = []\<rparr>,
       zeroCrossingRate = \<lparr>zcr_values = [Num 0], zcr_mean = Num 0, isFricative = False\<rparr>,
       summary = Some \<lparr>soundType = ''unvoiced stop (p, t, k, etc.)'',
                        summary_quality = \<lparr>score = 100, issues = [], isGood = True\<rparr>\<rparr>\<rparr>"
    unfolding analyzeAudio_def en vo pt zc
    by (simp add: Let_def generateSummary_def classifySoundType_def assessQuality_def js_gt_def)
  then show ?thesis by (simp only: audioData_def)
qed

text \<open>
  C10, as stated, fails when the only nonzero samples lie outside every analysed frame. At
  44100 Hz a clip of 1102 zeros followed by one sample of value 1 holds a full frame and a
  nonzero sample, but the frame loop \<open>i < length - frameSize\<close> analyses the single frame
  at 0, which is silent: the maximum energy is 0, the normalised energy is \<open>0/0\<close>,
  \<open>energy.max\<close> is NaN, both comparisons of \<open>assessQuality\<close> are false, and the score is 100
  with no issue.
\<close>

theorem analyzeAudio_unseen_sample_counterexample:
  "analyzeAudio 44100 (1103 / 44100) (replicate 1102 0 @ [1]) =
     Returns \<lparr>feat_duration = 1103 / 44100,
       energy = \<lparr>energy_values = [NaN], energy_mean = NaN, energy_max = NaN,
                  energy_min = NaN, energy_dB = NaN\<rparr>,
       voicing = \<lparr>voicing_frames = [0], voicingRatio = Num 0, isVoiced = False,
                   voicedSegments = []\<rparr>,
       pitch = \<lparr>pitch_values = [PosInf], pitch_mean = Num 0, pitch_min = Num 0,
                 pitch_max = Num 0, pitch_contour = []\<rparr>,
       zeroCrossingRate = \<lparr>zcr_values = [Num 0], zcr_mean = Num 0, isFricative = False\<rparr>,
       summary = Some \<lparr>soundType = ''unvoiced stop (p, t, k, etc.)'',
                        summary_quality = \<lparr>score = 100, issues = [], isGood = True\<rparr>\<rparr>\<rparr>"
proof -
  have fs: "frameSizeOf 44100 = 1102" by (simp add: frameSizeOf_def)
  have hs: "hopSizeOf 44100 = 441" by (simp add: hopSizeOf_def)
  have "(0::nat) < 1102" "(0::nat) < 441" "(0::real) < 44100" by simp_all
  from analyzeAudio_unseen_sample [of 44100 1102 441 "1103 / 44100", OF fs hs this]
  show ?thesis .
qed

section \<open>Pitch aggregate\<close>

lemma pitchSearch_fold_lag:
  "l = 0 \<or> (a \<le> l \<and> l < b) \<Longrightarrow> set lags \<subseteq> {a..<b} \<Longrightarrow>
   snd (foldl (\<lambda>(maxCorr, bestLag) lag.
              let corr = calculateAutocorrelation frame lag in
              if corr > maxCorr then (corr, lag) else (maxCorr, bestLag))
           (m, l) lags) = 0
   \<or> (a \<le> snd (foldl (\<lambda>(maxCorr, bestLag) lag.
              let corr = calculateAutocorrelation frame lag in
              if corr > maxCorr then (corr, lag) else (maxCorr, bestLag))
           (m, l) lags)
      \<and> snd (foldl (\<lambda>(maxCorr, bestLag) lag.
              let corr = calculateAutocorrelation frame lag in
              if corr > maxCorr then (corr, lag) else (maxCorr, bestLag))
           (m, l) lags) < b)"
proof (induction lags arbitrary: m l)
  case Nil
  then show ?case by simp
next
  case (Cons x lags)
  from Cons.prems have x: "a \<le> x \<and> x < b" and rest: "set lags \<subseteq> {a..<b}" by auto
  show ?case
  proof (cases "calculateAutocorrelation frame x > m")
    case True
    with Cons.IH [of x "calculateAutocorrelation frame x", OF _ rest] x show ?thesis
      by (simp add: Let_def)
  next
    case False
    with Cons.IH [of l m, OF Cons.prems(1) rest] show ?thesis
      by (simp add: Let_def)
  qed
qed

lemma pitchSearch_lag:
  "snd (pitchSearch frame a b) = 0 \<or> (a \<le> snd (pitchSearch frame a b) \<and> snd (pitchSearch frame a b) < b)"
  unfolding pitchSearch_def by (rule pitchSearch_fold_lag) simp_all

lemma estimatePitch_gt_50:
  assumes sr: "0 < sr"
  shows "js_gt (estimatePitch sr frame) (Num 50)"
proof -
  define bestLag where "bestLag = snd (pitchSearch frame (nat \<lfloor>sr / 400\<rfloor>) (nat \<lfloor>sr / 50\<rfloor>))"
  have est: "estimatePitch sr frame = js_div (Num sr) (Num (real bestLag))"
    by (simp add: estimatePitch_def Let_def bestLag_def)
  show ?thesis
  proof (cases "bestLag = 0")
    case True
    with sr show ?thesis by (simp add: est js_gt_def)
  next
    case False
    with pitchSearch_lag [of frame "nat \<lfloor>sr / 400\<rfloor>" "nat \<lfloor>sr / 50\<rfloor>"]
    have "bestLag < nat \<lfloor>sr / 50\<rfloor>" by (simp add: bestLag_def)
    then have "int bestLag + 1 \<le> \<lfloor>sr / 50\<rfloor>" by linarith
    then have "real bestLag + 1 \<le> sr / 50"
      by (metis le_floor_iff of_int_1 of_int_add of_int_of_nat_eq)
    then have "50 * real bestLag < sr" by simp
    moreover have "0 < real bestLag" using False by simp
    ultimately have "50 < sr / real bestLag" by (simp add: pos_less_divide_eq)
    with False show ?thesis by (simp add: est js_gt_def)
  qed
qed

lemma valid_pitch_Num:
  "js_gt v (Num 50) \<and> js_lt v (Num 400) \<Longrightarrow> \<exists>r. v = Num r \<and> 50 < r \<and> r < 400"
  by (cases v) (simp_all add: js_gt_def)

lemma valid_pitches_Num:
  "\<exists>rs. filter (\<lambda>v. js_gt v (Num 50) \<and> js_lt v (Num 400)) vs = map Num rs
        \<and> (\<forall>r\<in>set rs. 50 < r \<and> r < 400)"
proof (induction vs)
  case Nil
  show ?case by simp
next
  case (Cons v vs)
  then obtain rs where rs: "filter (\<lambda>v. js_gt v (Num 50) \<and> js_lt v (Num 400)) vs = map Num rs"
    "\<forall>r\<in>set rs. 50 < r \<and> r < 400" by blast
  show ?case
  proof (cases "js_gt v (Num 50) \<and> js_lt v (Num 400)")
    case True
    from valid_pitch_Num [OF True] obtain r where r: "v = Num r" "50 < r" "r < 400" by blast
    have "filter (\<lambda>v. js_gt v (Num 50) \<and> js_lt v (Num 400)) (v # vs) = map Num (r # rs)"
      using True rs(1) r(1) by simp
    moreover have "\<forall>x\<in>set (r # rs). 50 < x \<and> x < 400" using rs(2) r by simp
    ultimately show ?thesis by blast
  next
    case False
    then have "filter (\<lambda>v. js_gt v (Num 50) \<and> js_lt v (Num 400)) (v # vs) = map Num rs"
      using rs(1) by simp
    with rs(2) show ?thesis by blast
  qed
qed

lemma mean_Num:
  "rs \<noteq> [] \<Longrightarrow>
   js_div (foldl js_add (hd (map Num rs)) (tl (map Num rs))) (Num (real (length rs)))
     = Num (sum_list rs / real (length rs))"
  by (cases rs) (simp_all add: foldl_js_add_Num)

lemma analyzePitch_Returns:
  assumes "frameStarts (length audioData) (frameSizeOf sr) (hopSizeOf sr) 0 = Returns starts"
    and "pitchValues = filter (\<lambda>pitch. js_gt pitch (Num 50))
           (map (\<lambda>i. estimatePitch sr (slice audioData i (i + frameSizeOf sr))) starts)"
    and "validPitches = filter (\<lambda>p. js_gt p (Num 50) \<and> js_lt p (Num 400)) pitchValues"
  shows "analyzePitch sr audioData =
     Returns \<lparr>pitch_values = pitchValues,
       pitch_mean =
         (if 0 < length validPitches
          then js_div (foldl js_add (hd validPitches) (tl validPitches))
                 (Num (real (length validPitches)))
          else Num 0),
       pitch_min = (if 0 < length validPitches then Math_min validPitches else Num 0),
       pitch_max = (if 0 < length validPitches then Math_max validPitches else Num 0),
       pitch_contour = validPitches\<rparr>"
  unfolding analyzePitch_def Let_def assms(3) assms(2)
  by (simp only: assms(1) outcome.case)

text \<open>
  C4. For every clip (at a sample rate with a positive hop) \<open>analyzePitch\<close> returns. Its
  \<open>values\<close> field is the raw series: the estimate of every frame, none dropped, since every
  estimate exceeds 50 (an estimate is \<open>Infinity\<close> when no lag correlates). The aggregates
  are computed from the filtered series kept in \<open>contour\<close>, whose members are finite and lie
  within 50 to 400 Hz (the filter is \<open>50 < p < 400\<close>): the mean is their arithmetic mean,
  min and max their minimum and maximum, and all three are 0 when no estimate is valid.
\<close>

theorem analyzePitch_aggregate:
  assumes hop: "0 < hopSizeOf sr"
  shows "\<exists>starts p rs.
           frameStarts (length audioData) (frameSizeOf sr) (hopSizeOf sr) 0 = Returns starts
         \<and> analyzePitch sr audioData = Returns p
         \<and> pitch_values p = map (\<lambda>i. estimatePitch sr (slice audioData i (i + frameSizeOf sr))) starts
         \<and> pitch_contour p = filter (\<lambda>v. js_gt v (Num 50) \<and> js_lt v (Num 400)) (pitch_values p)
         \<and> pitch_contour p = map Num rs
         \<and> (\<forall>r\<in>set rs. 50 \<le> r \<and> r \<le> 400)
         \<and> pitch_mean p = (if rs = [] then Num 0 else Num (sum_list rs / real (length rs)))
         \<and> pitch_min p = (if rs = [] then Num 0 else Num (Min (set rs)))
         \<and> pitch_max p = (if rs = [] then Num 0 else Num (Max (set rs)))"
proof -
  from frameStarts_returns [OF hop, of "length audioData" "frameSizeOf sr" 0]
  obtain starts where
    st: "frameStarts (length audioData) (frameSizeOf sr) (hopSizeOf sr) 0 = Returns starts"
    by blast
  have "0 < \<lfloor>sr * 0.010\<rfloor>" using hop by (simp add: hopSizeOf_def)
  then have "1 \<le> sr * 0.010" by (simp add: le_floor_iff)
  then have sr: "0 < sr" by simp
  define est where "est = map (\<lambda>i. estimatePitch sr (slice audioData i (i + frameSizeOf sr))) starts"
  have keep: "filter (\<lambda>pitch. js_gt pitch (Num 50)) est = est"
    using sr by (simp add: est_def estimatePitch_gt_50)
  from valid_pitches_Num [of est] obtain rs where
    rs: "filter (\<lambda>v. js_gt v (Num 50) \<and> js_lt v (Num 400)) est = map Num rs"
    and rng: "\<forall>r\<in>set rs. 50 < r \<and> r < 400" by blast
  define p where "p = \<lparr>pitch_values = est,
       pitch_mean = (if rs = [] then Num 0 else Num (sum_list rs / real (length rs))),
       pitch_min = (if rs = [] then Num 0 else Num (Min (set rs))),
       pitch_max = (if rs = [] then Num 0 else Num (Max (set rs))),
       pitch_contour = map Num rs\<rparr>"
  have "analyzePitch sr audioData = Returns p"
    using analyzePitch_Returns [OF st, of est "map Num rs"] keep rs
    by (simp add: est_def [symmetric] p_def mean_Num Math_min_Num Math_max_Num)
  moreover have "pitch_values p = est" by (simp add: p_def)
  moreover have "pitch_contour p = filter (\<lambda>v. js_gt v (Num 50) \<and> js_lt v (Num 400)) (pitch_values p)"
    by (simp add: p_def rs)
  moreover have "pitch_contour p = map Num rs" by (simp add: p_def)
  moreover have "\<forall>r\<in>set rs. 50 \<le> r \<and> r \<le> 400" using rng by auto
  moreover have "pitch_mean p = (if rs = [] then Num 0 else Num (sum_list rs / real (length rs)))"
    "pitch_min p = (if rs = [] then Num 0 else Num (Min (set rs)))"
    "pitch_max p = (if rs = [] then Num 0 else Num (Max (set rs)))"
    by (simp_all add: p_def)
  ultimately show ?thesis using st unfolding est_def by blast
qed


lemma estimatePitch_square_wave:
  "estimatePitch 400 [1, 0, - 1, 0, 1, 0, - 1, 0, 1, 0] = Num 200"
  by code_simp

text \<open>
  A square wave of period 4 sampled at 400 Hz: one frame of 10 samples, best lag 2, a
  single estimate of 200 Hz.
\<close>

theorem analyzePitch_aggregate_witness:
  "analyzePitch 400 [1, 0, - 1, 0, 1, 0, - 1, 0, 1, 0, - 1] =
     Returns \<lparr>pitch_values = [Num 200], pitch_mean = Num 200, pitch_min = Num 200,
               pitch_max = Num 200, pitch_contour = [Num 200]\<rparr>"
proof -
  define audioData :: "real list" where "audioData = [1, 0, - 1, 0, 1, 0, - 1, 0, 1, 0, - 1]"
  have fs: "frameSizeOf 400 = 10" by (simp add: frameSizeOf_def)
  have hs: "hopSizeOf 400 = 4" by (simp add: hopSizeOf_def)
  have len: "length audioData = 11" by (simp add: audioData_def)
  have st: "frameStarts (length audioData) (frameSizeOf 400) (hopSizeOf 400) 0 = Returns [0]"
    unfolding len fs hs by (simp add: frameStarts.simps)
  have sl: "slice audioData 0 (frameSizeOf 400) = [1, 0, - 1, 0, 1, 0, - 1, 0, 1, 0]"
    by (simp add: slice_def audioData_def fs)
  have hop: "0 < hopSizeOf 400" by (simp add: hs)
  from analyzePitch_aggregate [OF hop, of audioData]
  obtain starts p rs where
    st': "frameStarts (length audioData) (frameSizeOf 400) (hopSizeOf 400) 0 = Returns starts"
    and p: "analyzePitch 400 audioData = Returns p"
    and v: "pitch_values p = map (\<lambda>i. estimatePitch 400 (slice audioData i (i + frameSizeOf 400))) starts"
    and c: "pitch_contour p = filter (\<lambda>v. js_gt v (Num 50) \<and> js_lt v (Num 400)) (pitch_values p)"
    and r: "pitch_contour p = map Num rs"
    and m: "pitch_mean p = (if rs = [] then Num 0 else Num (sum_list rs / real (length rs)))"
      "pitch_min p = (if rs = [] then Num 0 else Num (Min (set rs)))"
      "pitch_max p = (if rs = [] then Num 0 else Num (Max (set rs)))"
    by blast
  from st st' have "starts = [0]" by simp
  with v have v': "pitch_values p = [Num 200]"
    by (simp add: sl estimatePitch_square_wave)
  from c v' r have "map Num rs = [Num 200]" by (simp add: js_gt_def)
  then have rs: "rs = [200]" by auto
  have "p = \<lparr>pitch_values = [Num 200], pitch_mean = Num 200, pitch_min = Num 200,
               pitch_max = Num 200, pitch_contour = [Num 200]\<rparr>"
    using v' r m by (simp add: rs)
  with p show ?thesis by (simp add: audioData_def)
qed

section \<open>Bresenham's loop ends\<close>

lemma bresenhamLoop_ends:
  fixes dx dy p q :: int
  assumes "0 \<le> p" "p \<le> dx" "0 \<le> q" "q \<le> dy"
    and "sx = 1 \<or> sx = - 1" "sy = 1 \<or> sy = - 1"
    and "n = nat (p + q)"
  shows "\<exists>points. bresenhamLoop x1 y1 dx dy sx sy (x1 - sx * p) (y1 - sy * q)
                    (dx - dy + p * dy - q * dx) = Some points"
  using assms
proof (induction n arbitrary: p q rule: less_induct)
  case (less n)
  note sx = \<open>sx = 1 \<or> sx = - 1\<close> and sy = \<open>sy = 1 \<or> sy = - 1\<close>
  define err where "err = dx - dy + p * dy - q * dx"
  show ?case
  proof (cases "p = 0 \<and> q = 0")
    case True
    then show ?thesis by (subst bresenhamLoop.simps) simp
  next
    case False
    have notend: "\<not> (x1 - sx * p = x1 \<and> y1 - sy * q = y1)"
      using False sx sy by auto
    define xs where "xs = (2 * err > - dy)"
    define ys where "ys = (2 * err < dx)"
    define p' where "p' = (if xs then p - 1 else p)"
    define q' where "q' = (if ys then q - 1 else q)"
    have dx0: "0 \<le> dx" and dy0: "0 \<le> dy" using less.prems by auto
    have xstep: "xs \<Longrightarrow> 1 \<le> p"
    proof (rule ccontr)
      assume xs: xs and "\<not> 1 \<le> p"
      then have p0: "p = 0" using less.prems by simp
      then have q1: "1 \<le> q" using False less.prems by simp
      have "dx * 1 \<le> dx * q" using q1 dx0 by (intro mult_left_mono) simp_all
      then have "err \<le> - dy" by (simp add: err_def p0 mult.commute)
      with dy0 xs show False by (simp add: xs_def)
    qed
    have ystep: "ys \<Longrightarrow> 1 \<le> q"
    proof (rule ccontr)
      assume ys: ys and "\<not> 1 \<le> q"
      then have q0: "q = 0" using less.prems by simp
      then have p1: "1 \<le> p" using False less.prems by simp
      have "0 \<le> (p - 1) * dy" using p1 dy0 by simp
      then have "dx \<le> err" by (simp add: err_def q0 algebra_simps)
      with dx0 ys show False by (simp add: ys_def)
    qed
    have some: "xs \<or> ys"
    proof (rule ccontr)
      assume "\<not> (xs \<or> ys)"
      then have "dx \<le> - dy" by (simp add: xs_def ys_def)
      with dx0 dy0 have "dx = 0" "dy = 0" by simp_all
      with less.prems False show False by simp
    qed
    have bounds: "0 \<le> p'" "p' \<le> dx" "0 \<le> q'" "q' \<le> dy"
      using xstep ystep less.prems by (auto simp: p'_def q'_def)
    have dec: "nat (p' + q') < n"
      using some xstep ystep less.prems by (auto simp: p'_def q'_def)
    have x': "(if 2 * err > - dy then x1 - sx * p + sx else x1 - sx * p) = x1 - sx * p'"
      by (simp add: p'_def xs_def algebra_simps)
    have y': "(if 2 * err < dx then y1 - sy * q + sy else y1 - sy * q) = y1 - sy * q'"
      by (simp add: q'_def ys_def algebra_simps)
    have e': "(if 2 * err > - dy then err - dy else err) + (if 2 * err < dx then dx else 0)
              = dx - dy + p' * dy - q' * dx"
      by (simp add: p'_def q'_def xs_def ys_def err_def algebra_simps)
    from less.IH [OF dec bounds sx sy refl] obtain points where
      "bresenhamLoop x1 y1 dx dy sx sy (x1 - sx * p') (y1 - sy * q')
         (dx - dy + p' * dy - q' * dx) = Some points" by blast
    moreover have "bresenhamLoop x1 y1 dx dy sx sy (x1 - sx * p) (y1 - sy * q) err =
        Option.bind
          (bresenhamLoop x1 y1 dx dy sx sy (x1 - sx * p') (y1 - sy * q')
             (dx - dy + p' * dy - q' * dx))
          (\<lambda>points. Some ((x1 - sx * p, y1 - sy * q) # points))"
      by (subst bresenhamLoop.simps) (simp only: notend if_False x' y' e')
    ultimately show ?thesis by (simp add: err_def)
  qed
qed

lemma bresenhamLine_ends: "\<exists>points. bresenhamLine x0 y0 x1 y1 = Some points"
proof -
  define dx where "dx = \<bar>x1 - x0\<bar>"
  define dy where "dy = \<bar>y1 - y0\<bar>"
  define sx :: int where "sx = (if x0 < x1 then 1 else - 1)"
  define sy :: int where "sy = (if y0 < y1 then 1 else - 1)"
  have x0: "x0 = x1 - sx * dx" by (simp add: sx_def dx_def)
  have y0: "y0 = y1 - sy * dy" by (simp add: sy_def dy_def)
  have "\<exists>points. bresenhamLoop x1 y1 dx dy sx sy (x1 - sx * dx) (y1 - sy * dy)
                    (dx - dy + dx * dy - dy * dx) = Some points"
    by (rule bresenhamLoop_ends [OF _ _ _ _ _ _ refl]) (simp_all add: dx_def dy_def sx_def sy_def)
  then have "\<exists>points. bresenhamLoop x1 y1 dx dy sx sy x0 y0 (dx - dy) = Some points"
    using x0 y0 by (simp add: mult.commute)
  then show ?thesis
    by (simp add: bresenhamLine_def Let_def dx_def dy_def sx_def sy_def)
qed

end
